theory Spec2Isabelle
  imports Complex_Main
begin

section \<open>JavaScript values\<close>

text \<open>
  The values that cross the boundary of \<^verbatim>\<open>lib/itunes.js\<close>: arguments of the
  callers, replies of the scripting bridge, and the values a promise settles with.
  Numbers are IEEE doubles in JavaScript; here a finite number is a real, and the
  three special cases are constructors of their own. The module never computes with
  a number: it only tests one for truthiness. An object is the list of its own
  properties, the first entry of a key being the property.
\<close>

datatype jsnum = NaN | Infinity bool | Finite real

datatype jsval =
    JUndefined
  | JNull
  | JBool bool
  | JNum jsnum
  | JStr string
  | JArr "jsval list"
  | JObj "(string \<times> jsval) list"

text \<open>The \<^verbatim>\<open>typeof\<close> operator; it never yields \<^verbatim>\<open>'null'\<close>.\<close>

fun typeof :: "jsval \<Rightarrow> string" where
  "typeof JUndefined = ''undefined''"
| "typeof JNull = ''object''"
| "typeof (JBool b) = ''boolean''"
| "typeof (JNum n) = ''number''"
| "typeof (JStr s) = ''string''"
| "typeof (JArr xs) = ''object''"
| "typeof (JObj kvs) = ''object''"

text \<open>ToBoolean, as applied by \<^verbatim>\<open>if (err)\<close> and \<^verbatim>\<open>error ? a : b\<close>.\<close>

fun truthy :: "jsval \<Rightarrow> bool" where
  "truthy JUndefined = False"
| "truthy JNull = False"
| "truthy (JBool b) = b"
| "truthy (JNum n) = (case n of NaN \<Rightarrow> False | Infinity s \<Rightarrow> True | Finite r \<Rightarrow> r \<noteq> 0)"
| "truthy (JStr s) = (s \<noteq> [])"
| "truthy (JArr xs) = True"
| "truthy (JObj kvs) = True"

text \<open>
  A thrown exception. The module can raise a TypeError itself in two ways: by reading a
  property of \<^verbatim>\<open>undefined\<close> or \<^verbatim>\<open>null\<close>, and by converting to a string,
  in a template, a value that has no string form.
\<close>

datatype exn = TypeError

definition digit :: "nat \<Rightarrow> char" where
  "digit d = ''0123456789'' ! d"

fun decimal :: "nat \<Rightarrow> string" where
  "decimal n = (if n < 10 then [digit n] else decimal (n div 10) @ [digit (n mod 10)])"

declare decimal.simps [simp del]

definition own_property :: "(string \<times> jsval) list \<Rightarrow> string \<Rightarrow> jsval" where
  "own_property kvs k = (case map_of kvs k of Some v \<Rightarrow> v | None \<Rightarrow> JUndefined)"

text \<open>
  The indexed read \<^verbatim>\<open>meta[i]\<close>: it throws on \<^verbatim>\<open>undefined\<close> and
  \<^verbatim>\<open>null\<close>, reads an array or a string by position (\<^verbatim>\<open>undefined\<close> out of
  range), an object by the key that is the decimal text of the index, and is
  \<^verbatim>\<open>undefined\<close> on a boolean or a number.
\<close>

fun index :: "jsval \<Rightarrow> nat \<Rightarrow> exn + jsval" where
  "index JUndefined i = Inl TypeError"
| "index JNull i = Inl TypeError"
| "index (JBool b) i = Inr JUndefined"
| "index (JNum n) i = Inr JUndefined"
| "index (JStr s) i = Inr (if i < length s then JStr [s ! i] else JUndefined)"
| "index (JArr xs) i = Inr (if i < length xs then xs ! i else JUndefined)"
| "index (JObj kvs) i = Inr (own_property kvs (decimal i))"

text \<open>
  The read \<^verbatim>\<open>error.message\<close>. The module performs it only on a truthy
  \<^verbatim>\<open>error\<close>, where it cannot throw: an object yields its property, every
  other truthy value has no such property.
\<close>

fun message :: "jsval \<Rightarrow> jsval" where
  "message (JObj kvs) = own_property kvs ''message''"
| "message v = JUndefined"

text \<open>
  Whether the conversion \<^verbatim>\<open>`${v}`\<close> of a template throws. A primitive value always
  has a string form. An object is converted by calling its \<^verbatim>\<open>toString\<close>, or else its
  \<^verbatim>\<open>valueOf\<close>: a plain object inherits a \<^verbatim>\<open>toString\<close> that returns a string, but
  an own property of that name hides it, and no value here is a function, so the call
  is not possible; the \<^verbatim>\<open>valueOf\<close> left over is no function either or returns the
  object itself, and the conversion throws a TypeError. An array joins the string forms
  of its elements and throws where one of them does.
\<close>

fun toString_throws :: "jsval \<Rightarrow> bool" where
  "toString_throws (JObj kvs) = (''toString'' \<in> fst ` set kvs)"
| "toString_throws (JArr xs) = (\<exists>x \<in> set xs. toString_throws x)"
| "toString_throws v = False"

section \<open>Promises and the scripting bridge\<close>

text \<open>
  A promise is pending until the first call of \<^verbatim>\<open>resolve\<close> or \<^verbatim>\<open>reject\<close>;
  every later call is ignored. A promise whose executor throws is rejected with what was
  thrown. Where that is an exception the engine raised, the reason is an error object of
  the engine's making, which is none of the values of the callers or of the bridge: that
  state is \<open>RejectedThrown\<close>.
\<close>

datatype promise = Pending | Fulfilled jsval | Rejected jsval | RejectedThrown exn

fun resolve :: "jsval \<Rightarrow> promise \<Rightarrow> promise" where
  "resolve v Pending = Fulfilled v"
| "resolve v p = p"

fun reject :: "jsval \<Rightarrow> promise \<Rightarrow> promise" where
  "reject e Pending = Rejected e"
| "reject e p = p"

text \<open>
  What is handed to the bridge (\<^verbatim>\<open>node-osascript\<close>): an inline script, or the path
  of a script file with its named variables.
\<close>

datatype command =
    Execute string
  | ExecuteFile string "(string \<times> jsval) list"

text \<open>
  What the bridge does with a command: it throws while being called, or it calls the
  callback once with an error value and an output value. An exception that escapes the
  executor of \<^verbatim>\<open>new Promise\<close> rejects the promise with the thrown value.
\<close>

datatype bridge = Throws jsval | Replies jsval jsval

text \<open>The two lines \<^verbatim>\<open>get\<close> may print, with the value they interpolate.\<close>

datatype log_line = ValidStringRecieved jsval | InvalidStringRecieved jsval

text \<open>
  The observable result of one call: the state of the returned promise once the bridge
  has answered, the commands submitted to the bridge, and the console output.
\<close>

record outcome =
  state :: promise
  submitted :: "command list"
  console :: "log_line list"

text \<open>
  \<^verbatim>\<open>itom\<close>, the application addressed, chosen once from the version of macOS
  (\<^verbatim>\<open>require('macos-version').is('>=10.15')\<close>). The operations below take it as a
  parameter.
\<close>

definition target_application :: "bool \<Rightarrow> string" where
  "target_application is_10_15_or_later = (if is_10_15_or_later then ''Music'' else ''iTunes'')"

definition tell :: "string \<Rightarrow> string" where
  \<open>tell itom = ''tell application "'' @ itom @ ''" to ''\<close>

section \<open>The operations\<close>

subsection \<open>playPause, gotoPrevious, gotoNext\<close>

definition acknowledge :: "bridge \<Rightarrow> promise" where
  "acknowledge b = (case b of
      Throws e \<Rightarrow> reject e Pending
    | Replies error output \<Rightarrow> resolve JUndefined Pending)"

definition playPause :: "string \<Rightarrow> bridge \<Rightarrow> outcome" where
  "playPause itom b =
     \<lparr>state = acknowledge b, submitted = [Execute (tell itom @ ''playpause'')], console = []\<rparr>"

definition gotoPrevious :: "string \<Rightarrow> bridge \<Rightarrow> outcome" where
  "gotoPrevious itom b =
     \<lparr>state = acknowledge b, submitted = [Execute (tell itom @ ''previous track'')], console = []\<rparr>"

definition gotoNext :: "string \<Rightarrow> bridge \<Rightarrow> outcome" where
  "gotoNext itom b =
     \<lparr>state = acknowledge b, submitted = [Execute (tell itom @ ''next track'')], console = []\<rparr>"

subsection \<open>get\<close>

text \<open>
  \<^verbatim>\<open>name === 'name' || name === 'artist' || name === 'album'\<close>: strict equality
  with a string literal holds for that string only.
\<close>

definition isValidKey :: "jsval \<Rightarrow> bool" where
  "isValidKey name = (name = JStr ''name'' \<or> name = JStr ''artist'' \<or> name = JStr ''album'')"

text \<open>
  One call of \<^verbatim>\<open>console.log\<close> with a template that interpolates \<^verbatim>\<open>name\<close>: the
  template is evaluated first, and nothing is printed where its conversion throws.
\<close>

definition log_template :: "(jsval \<Rightarrow> log_line) \<Rightarrow> jsval \<Rightarrow> exn + log_line list" where
  "log_template line name = (if toString_throws name then Inl TypeError else Inr [line name])"

text \<open>Lines 39 to 44: what is printed, or the exception that ends the executor there.\<close>

definition get_console :: "jsval \<Rightarrow> jsval \<Rightarrow> exn + log_line list" where
  "get_console name isVerbose =
     (if typeof isVerbose = ''boolean'' \<and> truthy isVerbose \<and> isValidKey name
        then log_template ValidStringRecieved name
      else if typeof isVerbose = ''boolean'' \<and> truthy isVerbose
        then log_template InvalidStringRecieved name
      else Inr [])"

text \<open>
  An exception of the log lines leaves the executor before line 45, so that neither the
  bridge is called nor \<^verbatim>\<open>reject\<close> with the message of line 51: the promise is
  rejected with the exception. Otherwise the test of line 45 follows. The callback is
  \<^verbatim>\<open>(error, output) => resolve(output, error)\<close>; \<^verbatim>\<open>resolve\<close> takes its first
  argument only.
\<close>

definition get :: "string \<Rightarrow> jsval \<Rightarrow> jsval \<Rightarrow> bridge \<Rightarrow> outcome" where
  "get itom name isVerbose b =
     (case get_console name isVerbose of
        Inl thrown \<Rightarrow> \<lparr>state = RejectedThrown thrown, submitted = [], console = []\<rparr>
      | Inr printed \<Rightarrow>
         (case name of
            JStr s \<Rightarrow>
              if isValidKey name then
                \<lparr>state = (case b of
                     Throws e \<Rightarrow> reject e Pending
                   | Replies error output \<Rightarrow> resolve output Pending),
                 submitted = [Execute (tell itom @ ''get the '' @ s @ '' of the current track'')],
                 console = printed\<rparr>
              else
                \<lparr>state = reject (JStr (''['' @ itom @ ''] [Error] Invalid input.'')) Pending,
                 submitted = [], console = printed\<rparr>
          | _ \<Rightarrow>
              \<lparr>state = reject (JStr (''['' @ itom @ ''] [Error] Invalid input.'')) Pending,
               submitted = [], console = printed\<rparr>))"

subsection \<open>getMetadata\<close>

definition script_file :: "string \<Rightarrow> string \<Rightarrow> string \<Rightarrow> string" where
  "script_file dirname stem itom =
     dirname @ ''/applescript/'' @ stem @ (if itom = ''Music'' then ''music.'' else '''') @ ''applescript''"

definition reading :: "jsval \<Rightarrow> nat \<Rightarrow> (jsval \<Rightarrow> exn + jsval) \<Rightarrow> exn + jsval" where
  "reading meta i k = (case index meta i of Inl e \<Rightarrow> Inl e | Inr v \<Rightarrow> k v)"

text \<open>The object literal \<^verbatim>\<open>response\<close>, its eleven reads in the order of the source.\<close>

definition response :: "jsval \<Rightarrow> exn + jsval" where
  "response meta =
     reading meta 0 (\<lambda>name.
     reading meta 1 (\<lambda>artist.
     reading meta 2 (\<lambda>album.
     reading meta 3 (\<lambda>year.
     reading meta 4 (\<lambda>albumArtist.
     reading meta 5 (\<lambda>bpm.
     reading meta 6 (\<lambda>composer.
     reading meta 7 (\<lambda>genre.
     reading meta 8 (\<lambda>length.
     reading meta 9 (\<lambda>progress.
     reading meta 10 (\<lambda>trackNumber.
       Inr (JObj [(''name'', name), (''artist'', artist), (''album'', album),
                  (''year'', year), (''albumArtist'', albumArtist), (''bpm'', bpm),
                  (''composer'', composer), (''genre'', genre), (''length'', length),
                  (''progress'', progress), (''trackNumber'', trackNumber)]))))))))))))"

text \<open>
  The callback of \<^verbatim>\<open>getMetadata\<close>: \<^verbatim>\<open>if (err) reject(err)\<close> does not return,
  the \<^verbatim>\<open>try\<close> block runs in either case; its \<^verbatim>\<open>if\<close> has no \<^verbatim>\<open>else\<close>;
  the \<^verbatim>\<open>catch\<close> ignores what was thrown.
\<close>

definition getMetadata_callback :: "jsval \<Rightarrow> jsval \<Rightarrow> promise \<Rightarrow> promise" where
  "getMetadata_callback err meta p =
     (let p1 = (if truthy err then reject err p else p) in
      if typeof meta \<noteq> ''undefined'' \<and> typeof meta \<noteq> ''null'' then
        (case response meta of
           Inr r \<Rightarrow> resolve r p1
         | Inl thrown \<Rightarrow> reject (JStr ''No song is currently playing'') p1)
      else p1)"

definition getMetadata :: "string \<Rightarrow> string \<Rightarrow> bridge \<Rightarrow> outcome" where
  "getMetadata itom dirname b =
     \<lparr>state = (case b of
         Throws e \<Rightarrow> reject e Pending
       | Replies err meta \<Rightarrow> getMetadata_callback err meta Pending),
      submitted = [ExecuteFile (script_file dirname ''metadata.'' itom) []],
      console = []\<rparr>"

subsection \<open>getPlaylistMetadata, getPlayerState, activate\<close>

definition getPlaylistMetadata :: "string \<Rightarrow> string \<Rightarrow> jsval \<Rightarrow> bridge \<Rightarrow> outcome" where
  "getPlaylistMetadata itom dirname playlist b =
     \<lparr>state = (case b of
         Throws e \<Rightarrow> reject e Pending
       | Replies error meta \<Rightarrow>
           resolve meta (if truthy error then reject error Pending else Pending)),
      submitted = [ExecuteFile (script_file dirname ''metadata.playlist.'' itom)
                     [(''playlistName'', playlist)]],
      console = []\<rparr>"

definition getPlayerState :: "string \<Rightarrow> bridge \<Rightarrow> outcome" where
  "getPlayerState itom b =
     \<lparr>state = (case b of
         Throws e \<Rightarrow> reject e Pending
       | Replies error output \<Rightarrow>
           resolve (JBool (output = JStr ''playing''))
             (if truthy error then reject error Pending else Pending)),
      submitted = [Execute (tell itom @ ''get player state as text'')],
      console = []\<rparr>"

text \<open>The callback \<^verbatim>\<open>error => error ? reject(error.message) : resolve()\<close>.\<close>

definition message_or_done :: "bridge \<Rightarrow> promise" where
  "message_or_done b = (case b of
      Throws e \<Rightarrow> reject e Pending
    | Replies error output \<Rightarrow>
        if truthy error then reject (message error) Pending else resolve JUndefined Pending)"

definition activate :: "string \<Rightarrow> bridge \<Rightarrow> outcome" where
  "activate itom b =
     \<lparr>state = message_or_done b, submitted = [Execute (tell itom @ ''activate'')], console = []\<rparr>"

subsection \<open>playSong\<close>

text \<open>
  The \<^verbatim>\<open>SongObject\<close> of the documentation: three optional strings. A field that
  is \<^verbatim>\<open>undefined\<close> is \<open>None\<close>.
\<close>

record song_object =
  name :: "string option"
  artist :: "string option"
  album :: "string option"

definition responseName :: "song_object \<Rightarrow> string" where
  \<open>responseName options =
     (case name options of
        Some n \<Rightarrow> ''name is "'' @ n @ ''"''
      | None \<Rightarrow> '''')\<close>

definition responseArtist :: "song_object \<Rightarrow> string" where
  \<open>responseArtist options =
     (case artist options of
        Some a \<Rightarrow> (if name options \<noteq> None then '' and '' else '' '') @ ''artist is "'' @ a @ ''"''
      | None \<Rightarrow> '''')\<close>

definition responseAlbum :: "song_object \<Rightarrow> string" where
  \<open>responseAlbum options =
     (case album options of
        Some a \<Rightarrow> (if name options \<noteq> None \<or> artist options \<noteq> None then '' and '' else '' '')
                   @ ''album is "'' @ a @ ''"''
      | None \<Rightarrow> '''')\<close>

text \<open>
  The text between \<^verbatim>\<open>(first track whose\<close> and the closing parenthesis, as the
  template of line 158 assembles it: the three parts with one space between them.
\<close>

definition playSong_predicate :: "song_object \<Rightarrow> string" where
  "playSong_predicate options =
     responseName options @ '' '' @ responseArtist options @ '' '' @ responseAlbum options"

text \<open>
  The \<^verbatim>\<open>try\<close> around the call of the bridge passes a thrown value to
  \<^verbatim>\<open>reject\<close>.
\<close>

definition playSong :: "string \<Rightarrow> song_object \<Rightarrow> bridge \<Rightarrow> outcome" where
  \<open>playSong itom options b =
     (if name options \<noteq> None \<or> artist options \<noteq> None \<or> album options \<noteq> None then
        \<lparr>state = message_or_done b,
         submitted = [Execute (tell itom @ ''play (first track whose ''
                                 @ playSong_predicate options @ '')'')],
         console = []\<rparr>
      else
        \<lparr>state = reject (JStr (''['' @ itom
                    @ ''] [Error] Not enough info in options, requires "name", "artist", or "album".''))
                   Pending,
         submitted = [], console = []\<rparr>)\<close>

subsection \<open>playPlaylist, addToPlaylist\<close>

definition playPlaylist :: "string \<Rightarrow> string \<Rightarrow> bridge \<Rightarrow> outcome" where
  \<open>playPlaylist itom playlist b =
     \<lparr>state = message_or_done b,
      submitted = [Execute (tell itom @ ''play playlist "'' @ playlist @ ''"'')],
      console = []\<rparr>\<close>

text \<open>A template prints a field that is \<^verbatim>\<open>undefined\<close> as that word.\<close>

definition interpolate :: "string option \<Rightarrow> string" where
  "interpolate v = (case v of Some s \<Rightarrow> s | None \<Rightarrow> ''undefined'')"

definition addToPlaylist :: "string \<Rightarrow> song_object \<Rightarrow> string \<Rightarrow> bridge \<Rightarrow> outcome" where
  \<open>addToPlaylist itom songObject playlist b =
     \<lparr>state = message_or_done b,
      submitted = [Execute (tell itom
         @ ''add (get the location of the first track whose name is "''
         @ interpolate (name songObject) @ ''" and artist is "''
         @ interpolate (artist songObject) @ ''" and album is "''
         @ interpolate (album songObject) @ ''") to playlist "'' @ playlist @ ''"'')],
      console = []\<rparr>\<close>

section \<open>Notions the properties are stated with\<close>

subsection \<open>Sequences read by position\<close>

text \<open>The value of a sequence at a position, \<^verbatim>\<open>undefined\<close> where it has none.\<close>

definition slot :: "jsval list \<Rightarrow> nat \<Rightarrow> jsval" where
  "slot vs i = (if i < length vs then vs ! i else JUndefined)"

subsection \<open>The predicate as a conjunction of clauses\<close>

text \<open>
  The predicate as the documentation of the module describes it: one clause for each
  field that is present, in the order name, artist, album, with \<^verbatim>\<open> and \<close> between
  two clauses and nothing else.
\<close>

definition clause :: "string \<Rightarrow> string \<Rightarrow> string" where
  \<open>clause field v = field @ '' is "'' @ v @ ''"''\<close>

definition present_clauses :: "song_object \<Rightarrow> string list" where
  "present_clauses options =
     (case name options of Some n \<Rightarrow> [clause ''name'' n] | None \<Rightarrow> [])
     @ (case artist options of Some a \<Rightarrow> [clause ''artist'' a] | None \<Rightarrow> [])
     @ (case album options of Some a \<Rightarrow> [clause ''album'' a] | None \<Rightarrow> [])"

fun joined :: "string \<Rightarrow> string list \<Rightarrow> string" where
  "joined sep [] = []"
| "joined sep [x] = x"
| "joined sep (x # y # ys) = x @ sep @ joined sep (y # ys)"

definition joined_predicate :: "song_object \<Rightarrow> string" where
  "joined_predicate options = joined '' and '' (present_clauses options)"

text \<open>
  A text cut at its spaces, and its words: the pieces that are not empty. Two texts with
  the same words differ in the number of spaces between or around the words only.
\<close>

fun split_spaces :: "string \<Rightarrow> string list" where
  "split_spaces [] = [[]]"
| "split_spaces (c # cs) =
     (if c = CHR '' '' then [] # split_spaces cs
      else (case split_spaces cs of [] \<Rightarrow> [[c]] | w # ws \<Rightarrow> (c # w) # ws))"

definition tokens :: "string \<Rightarrow> string list" where
  "tokens s = filter (\<lambda>w. w \<noteq> []) (split_spaces s)"

subsection \<open>String literals of the script language\<close>

text \<open>
  How AppleScript reads a string literal: it starts at a double quote and ends at the
  next double quote that no backslash precedes; a backslash and the character after it
  stand for one character. \<open>string_literal\<close> reads a literal at the start of a text and
  returns the string it denotes with the text left over, or \<open>None\<close> where there is no
  complete literal.
\<close>

definition unescape :: "char \<Rightarrow> char" where
  "unescape c = (if c = CHR ''n'' then CHR 0x0A else if c = CHR ''r'' then CHR 0x0D
                 else if c = CHR ''t'' then CHR 0x09 else c)"

fun literal_body :: "string \<Rightarrow> (string \<times> string) option" where
  "literal_body [] = None"
| "literal_body [c] = (if c = CHR 0x22 then Some ([], []) else None)"
| "literal_body (c # e # cs) =
     (if c = CHR 0x22 then Some ([], e # cs)
      else if c = CHR 0x5C then
        (case literal_body cs of None \<Rightarrow> None | Some (d, rest) \<Rightarrow> Some (unescape e # d, rest))
      else
        (case literal_body (e # cs) of None \<Rightarrow> None | Some (d, rest) \<Rightarrow> Some (c # d, rest)))"

definition string_literal :: "string \<Rightarrow> (string \<times> string) option" where
  "string_literal s =
     (case s of [] \<Rightarrow> None | c # cs \<Rightarrow> if c = CHR 0x22 then literal_body cs else None)"

text \<open>A value as the templates of the module place it: between two double quotes, as it is.\<close>

definition in_quotes :: "string \<Rightarrow> string" where
  "in_quotes v = CHR 0x22 # v @ [CHR 0x22]"

section \<open>Auxiliary facts\<close>

lemma typeof_undefined: "(typeof v = ''undefined'') = (v = JUndefined)"
  by (cases v) simp_all

lemma typeof_not_null: "typeof v \<noteq> ''null''"
  by (cases v) simp_all

lemma response_defined:
  "meta \<noteq> JUndefined \<Longrightarrow> meta \<noteq> JNull \<Longrightarrow> \<exists>r. response meta = Inr r"
  by (cases meta) (simp_all add: response_def reading_def)

lemma response_throws: "(\<exists>e. response meta = Inl e) = (meta = JUndefined \<or> meta = JNull)"
  by (cases meta) (simp_all add: response_def reading_def)

lemma split_spaces_nonempty: "split_spaces s \<noteq> []"
  by (induction s) (auto split: list.splits)

lemma split_spaces_append:
  "split_spaces (xs @ CHR '' '' # ys) = split_spaces xs @ split_spaces ys"
proof (induction xs)
  case Nil
  show ?case by simp
next
  case (Cons x xs)
  obtain w ws where w: "split_spaces xs = w # ws"
    using split_spaces_nonempty [of xs] by (cases "split_spaces xs") auto
  show ?case using Cons w by simp
qed

lemma tokens_append: "tokens (xs @ CHR '' '' # ys) = tokens xs @ tokens ys"
  by (simp add: tokens_def split_spaces_append)

lemma tokens_space: "tokens (CHR '' '' # ys) = tokens ys"
  using tokens_append [of "[]" ys] by (simp add: tokens_def)

lemma tokens_Nil: "tokens [] = []"
  by (simp add: tokens_def)

lemma tokens_and:
  "tokens (CHR ''a'' # CHR ''n'' # CHR ''d'' # CHR '' '' # ys) = ''and'' # tokens ys"
  using tokens_append [of "''and''" ys] by (simp add: tokens_def)

lemma responseName_clause:
  "responseName options = (case name options of Some n \<Rightarrow> clause ''name'' n | None \<Rightarrow> [])"
  by (simp add: responseName_def clause_def split: option.split)

lemma responseArtist_clause:
  "responseArtist options =
     (case artist options of
        Some a \<Rightarrow> (if name options \<noteq> None then '' and '' else '' '') @ clause ''artist'' a
      | None \<Rightarrow> [])"
  by (simp add: responseArtist_def clause_def split: option.split)

lemma responseAlbum_clause:
  "responseAlbum options =
     (case album options of
        Some a \<Rightarrow> (if name options \<noteq> None \<or> artist options \<noteq> None then '' and '' else '' '')
                   @ clause ''album'' a
      | None \<Rightarrow> [])"
  by (simp add: responseAlbum_def clause_def split: option.split)

text \<open>
  Whatever fields are present, the predicate of \<^verbatim>\<open>playSong\<close> has the words of the
  clauses joined by \<^verbatim>\<open> and \<close>.
\<close>

lemma tokens_predicate:
  "tokens (playSong_predicate options) = tokens (joined_predicate options)"
  unfolding playSong_predicate_def joined_predicate_def present_clauses_def
    responseName_clause responseArtist_clause responseAlbum_clause
  by (cases "name options"; cases "artist options"; cases "album options")
     (simp_all add: tokens_append tokens_space tokens_and tokens_Nil)

text \<open>
  A literal that is read takes at least its closing quote from the text; where it takes
  nothing more than that, the text up to the closing quote is the string read and has no
  double quote in it.
\<close>

lemma literal_body_shape:
  "literal_body s = Some (d, r) \<Longrightarrow>
     length d + length r < length s \<and>
     (Suc (length d + length r) = length s \<longrightarrow> s = d @ CHR 0x22 # r \<and> CHR 0x22 \<notin> set d)"
proof (induction s arbitrary: d r rule: literal_body.induct)
  case 1
  then show ?case by simp
next
  case (2 c)
  then show ?case by (simp split: if_splits)
next
  case (3 c e cs)
  then show ?case
    by (fastforce split: if_splits option.splits prod.splits)
qed

lemma literal_of_quoted:
  "CHR 0x22 \<in> set v \<Longrightarrow> string_literal (in_quotes v) \<noteq> Some (v, [])"
proof
  assume q: "CHR 0x22 \<in> set v" and "string_literal (in_quotes v) = Some (v, [])"
  then have "literal_body (v @ [CHR 0x22]) = Some (v, [])"
    by (simp add: string_literal_def in_quotes_def)
  from literal_body_shape [OF this] have "CHR 0x22 \<notin> set v" by simp
  with q show False by simp
qed

text \<open>
  For comparison: a value with neither a double quote nor a backslash in it is read back
  from between the quotes as it is.
\<close>

lemma literal_of_plain:
  "CHR 0x22 \<notin> set v \<Longrightarrow> CHR 0x5C \<notin> set v \<Longrightarrow> literal_body (v @ CHR 0x22 # r) = Some (v, r)"
proof (induction v)
  case Nil
  then show ?case by (cases r) simp_all
next
  case (Cons c v)
  then show ?case by (cases v) (auto split: if_splits)
qed

text \<open>
  Every operation other than \<^verbatim>\<open>getMetadata\<close> leaves its promise settled, whatever
  the bridge does.
\<close>

lemma acknowledge_settles: "acknowledge b \<noteq> Pending"
  by (cases b) (simp_all add: acknowledge_def)

lemma message_or_done_settles: "message_or_done b \<noteq> Pending"
  by (cases b) (simp_all add: message_or_done_def)

lemma verbose_iff: "(typeof isVerbose = ''boolean'' \<and> truthy isVerbose) = (isVerbose = JBool True)"
  by (cases isVerbose) auto

lemma get_console_throws:
  "(get_console field isVerbose = Inl e) = (isVerbose = JBool True \<and> toString_throws field)"
  by (cases e; cases isVerbose) (auto simp add: get_console_def log_template_def)

lemma get_console_prints:
  "\<not> (isVerbose = JBool True \<and> toString_throws field) \<Longrightarrow>
     \<exists>printed. get_console field isVerbose = Inr printed"
  by (cases isVerbose) (auto simp add: get_console_def log_template_def)

lemma valid_key_converts:
  "field \<in> {JStr ''name'', JStr ''artist'', JStr ''album''} \<Longrightarrow> \<not> toString_throws field"
  by auto

text \<open>
  With the verbose flag \<^verbatim>\<open>true\<close> and a field that has no string form, \<^verbatim>\<open>get\<close>
  rejects with the TypeError of the log line, prints nothing and submits nothing.
\<close>

lemma get_log_line_throws:
  "toString_throws field \<Longrightarrow>
     get itom field (JBool True) b =
       \<lparr>state = RejectedThrown TypeError, submitted = [], console = []\<rparr>"
  by (simp add: get_def get_console_def log_template_def isValidKey_def)

lemma get_settles: "state (get itom field isVerbose b) \<noteq> Pending"
  by (cases "get_console field isVerbose"; cases field; cases b) (simp_all add: get_def)

lemma getPlaylistMetadata_settles: "state (getPlaylistMetadata itom dirname playlist b) \<noteq> Pending"
  by (cases b) (simp_all add: getPlaylistMetadata_def)

lemma getPlayerState_settles: "state (getPlayerState itom b) \<noteq> Pending"
  by (cases b) (simp_all add: getPlayerState_def)

lemma playSong_settles: "state (playSong itom options b) \<noteq> Pending"
  by (simp add: playSong_def message_or_done_settles)

text \<open>
  \<^verbatim>\<open>getMetadata\<close> stays pending in one case only: the callback receives no error
  and an \<^verbatim>\<open>undefined\<close> reply.
\<close>

lemma getMetadata_pending_iff:
  "(state (getMetadata itom dirname b) = Pending)
     = (\<exists>err. b = Replies err JUndefined \<and> \<not> truthy err)"
proof (cases b)
  case (Throws e)
  then show ?thesis by (simp add: getMetadata_def)
next
  case (Replies err meta)
  show ?thesis
  proof (cases "response meta")
    case (Inl x)
    with Replies show ?thesis
      by (simp add: getMetadata_def getMetadata_callback_def Let_def typeof_undefined typeof_not_null)
  next
    case (Inr r)
    then have "meta \<noteq> JUndefined" by (auto simp add: response_def reading_def)
    with Replies Inr show ?thesis
      by (simp add: getMetadata_def getMetadata_callback_def Let_def typeof_undefined typeof_not_null)
  qed
qed

section \<open>The claims\<close>

subsection \<open>Settling\<close>

text \<open>
  C1. Every public operation settles its promise exactly once for every reply of the
  bridge, and none fails to settle. The code breaks this at one input: when the callback
  of \<^verbatim>\<open>getMetadata\<close> receives no error and an \<^verbatim>\<open>undefined\<close> reply, neither
  \<^verbatim>\<open>resolve\<close> nor \<^verbatim>\<open>reject\<close> is called and the promise stays pending.
\<close>

theorem getMetadata_never_settles:
  "state (getMetadata ''iTunes'' ''/lib'' (Replies JNull JUndefined)) = Pending"
  by (simp add: getMetadata_def getMetadata_callback_def)

text \<open>
  C2. An \<^verbatim>\<open>undefined\<close> reply to \<^verbatim>\<open>getMetadata\<close> is to reject with
  \<^verbatim>\<open>'No song is currently playing'\<close>. The code never does so for that reply: it rejects
  with the error of the bridge where there is one, and otherwise leaves the promise
  pending.
\<close>

theorem getMetadata_undefined_reply:
  "state (getMetadata itom dirname (Replies err JUndefined)) =
     (if truthy err then Rejected err else Pending)"
  by (simp add: getMetadata_def getMetadata_callback_def)

theorem getMetadata_undefined_reply_witness:
  "state (getMetadata ''Music'' ''/lib'' (Replies JNull JUndefined)) = Pending
   \<and> state (getMetadata ''Music'' ''/lib''
        (Replies (JObj [(''message'', JStr ''execution error'')]) JUndefined))
       = Rejected (JObj [(''message'', JStr ''execution error'')])"
  using getMetadata_undefined_reply [of "''Music''" "''/lib''" JNull]
        getMetadata_undefined_reply [of "''Music''" "''/lib''"
          "JObj [(''message'', JStr ''execution error'')]"]
  by simp

subsection \<open>The predicate of playSong\<close>

text \<open>
  C3, as stated: \<^verbatim>\<open>playSong({name:"A"})\<close> submits exactly the predicate
  \<^verbatim>\<open>name is "A"\<close>, and \<^verbatim>\<open>playSong({name:"A", album:"B"})\<close> exactly
  \<^verbatim>\<open>name is "A" and album is "B"\<close>. Both fail: the template puts a space between
  the three parts whether or not they are empty, so the first predicate ends in two
  spaces and the second has three spaces before \<^verbatim>\<open>and\<close>.
\<close>

theorem playSong_predicate_counterexample:
  \<open>playSong_predicate \<lparr>name = Some ''A'', artist = None, album = None\<rparr> \<noteq> ''name is "A"''
   \<and> playSong_predicate \<lparr>name = Some ''A'', artist = None, album = Some ''B''\<rparr>
        \<noteq> ''name is "A" and album is "B"''
   \<and> submitted (playSong ''iTunes'' \<lparr>name = Some ''A'', artist = None, album = None\<rparr>
        (Replies JNull JUndefined))
        = [Execute ''tell application "iTunes" to play (first track whose name is "A"  )'']
   \<and> submitted (playSong ''iTunes'' \<lparr>name = Some ''A'', artist = None, album = Some ''B''\<rparr>
        (Replies JNull JUndefined))
        = [Execute ''tell application "iTunes" to play (first track whose name is "A"   and album is "B")'']\<close>
  by (simp add: playSong_def tell_def playSong_predicate_def
        responseName_def responseArtist_def responseAlbum_def)

text \<open>
  C3, amended: with at least one field present, \<^verbatim>\<open>playSong\<close> submits one command
  whose predicate has, word for word, the clauses of the present fields in the order
  name, artist, album joined by \<^verbatim>\<open> and \<close>; it differs from that text in spaces only.
  For a name alone the predicate is the clause followed by two spaces; for a name and an
  album it is the two clauses with three spaces, \<^verbatim>\<open>and\<close>, and one space between
  them.
\<close>

theorem playSong_predicate_spacing:
  \<open>name options \<noteq> None \<or> artist options \<noteq> None \<or> album options \<noteq> None \<Longrightarrow>
     submitted (playSong itom options b) =
       [Execute (''tell application "'' @ itom @ ''" to play (first track whose ''
                  @ playSong_predicate options @ '')'')]
     \<and> tokens (playSong_predicate options) = tokens (joined_predicate options)
     \<and> playSong_predicate \<lparr>name = Some n, artist = None, album = None\<rparr>
         = ''name is "'' @ n @ ''"  ''
     \<and> playSong_predicate \<lparr>name = Some n, artist = None, album = Some a\<rparr>
         = ''name is "'' @ n @ ''"   and album is "'' @ a @ ''"''\<close>
proof (intro conjI)
  assume "name options \<noteq> None \<or> artist options \<noteq> None \<or> album options \<noteq> None"
  then show \<open>submitted (playSong itom options b) =
       [Execute (''tell application "'' @ itom @ ''" to play (first track whose ''
                  @ playSong_predicate options @ '')'')]\<close>
    by (simp add: playSong_def tell_def)
next
  show "tokens (playSong_predicate options) = tokens (joined_predicate options)"
    by (rule tokens_predicate)
next
  show \<open>playSong_predicate \<lparr>name = Some n, artist = None, album = None\<rparr>
         = ''name is "'' @ n @ ''"  ''\<close>
    by (simp add: playSong_predicate_def responseName_def responseArtist_def responseAlbum_def)
next
  show \<open>playSong_predicate \<lparr>name = Some n, artist = None, album = Some a\<rparr>
         = ''name is "'' @ n @ ''"   and album is "'' @ a @ ''"''\<close>
    by (simp add: playSong_predicate_def responseName_def responseArtist_def responseAlbum_def)
qed

theorem playSong_predicate_spacing_witness:
  \<open>submitted (playSong ''iTunes'' \<lparr>name = Some ''A'', artist = None, album = Some ''B''\<rparr>
      (Replies JNull JUndefined)) =
       [Execute ''tell application "iTunes" to play (first track whose name is "A"   and album is "B")'']
   \<and> tokens (playSong_predicate \<lparr>name = Some ''A'', artist = None, album = Some ''B''\<rparr>)
       = [''name'', ''is'', ''"A"'', ''and'', ''album'', ''is'', ''"B"'']\<close>
  using playSong_predicate_spacing [of "\<lparr>name = Some ''A'', artist = None, album = Some ''B''\<rparr>"
          "''iTunes''" "Replies JNull JUndefined" "''A''" "''B''"]
  by (simp add: joined_predicate_def present_clauses_def clause_def tokens_def)

text \<open>
  C8. With none of name, artist and album present, \<^verbatim>\<open>playSong\<close> rejects with the
  message that the options lack information, and submits nothing to the bridge.
\<close>

theorem playSong_needs_a_field:
  \<open>state (playSong itom \<lparr>name = None, artist = None, album = None\<rparr> b) =
     Rejected (JStr (''['' @ itom
       @ ''] [Error] Not enough info in options, requires "name", "artist", or "album".''))
   \<and> submitted (playSong itom \<lparr>name = None, artist = None, album = None\<rparr> b) = []\<close>
  by (simp add: playSong_def)

theorem playSong_needs_a_field_witness:
  \<open>state (playSong ''Music'' \<lparr>name = None, artist = None, album = None\<rparr> (Replies JNull JUndefined)) =
     Rejected (JStr ''[Music] [Error] Not enough info in options, requires "name", "artist", or "album".'')
   \<and> submitted (playSong ''Music'' \<lparr>name = None, artist = None, album = None\<rparr>
        (Replies JNull JUndefined)) = []\<close>
  using playSong_needs_a_field [of "''Music''" "Replies JNull JUndefined"]
  by simp

text \<open>
  C10. The templates do not escape what they interpolate. A value is placed between two
  double quotes as it is, in the clauses of \<^verbatim>\<open>playSong\<close>, in the command of
  \<^verbatim>\<open>playPlaylist\<close> and in the four places of \<^verbatim>\<open>addToPlaylist\<close>; and for every
  value with a double quote in it, the quoted text does not read as one string literal
  that denotes the value.
\<close>

theorem interpolation_not_escaped:
  assumes "CHR 0x22 \<in> set v"
  shows
    "responseName \<lparr>name = Some v, artist = None, album = None\<rparr> = ''name is '' @ in_quotes v
     \<and> responseArtist \<lparr>name = None, artist = Some v, album = None\<rparr> = '' artist is '' @ in_quotes v
     \<and> responseAlbum \<lparr>name = None, artist = None, album = Some v\<rparr> = '' album is '' @ in_quotes v
     \<and> submitted (playSong itom \<lparr>name = Some v, artist = None, album = None\<rparr> b) =
         [Execute (tell itom @ ''play (first track whose name is '' @ in_quotes v @ ''  )'')]
     \<and> submitted (playPlaylist itom v b) = [Execute (tell itom @ ''play playlist '' @ in_quotes v)]
     \<and> submitted (addToPlaylist itom \<lparr>name = Some v, artist = Some v, album = Some v\<rparr> v b) =
         [Execute (tell itom @ ''add (get the location of the first track whose name is ''
            @ in_quotes v @ '' and artist is '' @ in_quotes v @ '' and album is '' @ in_quotes v
            @ '') to playlist '' @ in_quotes v)]
     \<and> string_literal (in_quotes v) \<noteq> Some (v, [])"
proof (intro conjI)
  show "string_literal (in_quotes v) \<noteq> Some (v, [])"
    using assms by (rule literal_of_quoted)
qed (simp_all add: responseName_def responseArtist_def responseAlbum_def playSong_def
       playSong_predicate_def playPlaylist_def addToPlaylist_def interpolate_def in_quotes_def)

theorem interpolation_not_escaped_witness:
  \<open>CHR 0x22 \<in> set ''A" or name is "B''
   \<and> submitted (playSong ''iTunes'' \<lparr>name = Some ''A" or name is "B'', artist = None, album = None\<rparr>
        (Replies JNull JUndefined)) =
       [Execute ''tell application "iTunes" to play (first track whose name is "A" or name is "B"  )'']
   \<and> string_literal (in_quotes ''A" or name is "B'') = Some (''A'', '' or name is "B"'')\<close>
  using interpolation_not_escaped [of "''A\" or name is \"B''" "''iTunes''" "Replies JNull JUndefined"]
  by (simp add: tell_def in_quotes_def string_literal_def)

subsection \<open>get\<close>

text \<open>
  C5. For every field that is not one of the strings \<^verbatim>\<open>name\<close>, \<^verbatim>\<open>artist\<close>,
  \<^verbatim>\<open>album\<close>, be it another string or not a string at all, \<^verbatim>\<open>get(field)\<close> rejects
  with the invalid-input message and submits nothing to the bridge. The call of the claim
  has the field alone; the same holds with a second argument, as long as the log line
  that a verbose flag \<^verbatim>\<open>true\<close> turns on can print the field. Nothing is submitted in
  any case.
\<close>

theorem get_rejects_invalid_field:
  assumes "field \<notin> {JStr ''name'', JStr ''artist'', JStr ''album''}"
  shows "state (get itom field JUndefined b)
           = Rejected (JStr (''['' @ itom @ ''] [Error] Invalid input.''))
         \<and> submitted (get itom field isVerbose b) = []
         \<and> (\<not> (isVerbose = JBool True \<and> toString_throws field) \<longrightarrow>
              state (get itom field isVerbose b)
                = Rejected (JStr (''['' @ itom @ ''] [Error] Invalid input.'')))"
proof (intro conjI impI)
  show "state (get itom field JUndefined b)
          = Rejected (JStr (''['' @ itom @ ''] [Error] Invalid input.''))"
    using assms by (cases field) (simp_all add: get_def get_console_def isValidKey_def)
next
  show "submitted (get itom field isVerbose b) = []"
    using assms
    by (cases "get_console field isVerbose"; cases field)
       (simp_all add: get_def isValidKey_def)
next
  assume "\<not> (isVerbose = JBool True \<and> toString_throws field)"
  from get_console_prints [OF this] obtain printed
    where "get_console field isVerbose = Inr printed" ..
  with assms show "state (get itom field isVerbose b)
      = Rejected (JStr (''['' @ itom @ ''] [Error] Invalid input.''))"
    by (cases field) (simp_all add: get_def isValidKey_def)
qed

theorem get_rejects_invalid_field_witness:
  "JObj [(''toString'', JNull)] \<notin> {JStr ''name'', JStr ''artist'', JStr ''album''}
   \<and> state (get ''iTunes'' (JObj [(''toString'', JNull)]) JUndefined (Replies JNull (JStr ''Rock'')))
       = Rejected (JStr ''[iTunes] [Error] Invalid input.'')
   \<and> submitted (get ''iTunes'' (JObj [(''toString'', JNull)]) (JBool True)
        (Replies JNull (JStr ''Rock''))) = []
   \<and> \<not> (JBool True = JBool True \<and> toString_throws (JNum (Finite 7)))
   \<and> state (get ''iTunes'' (JNum (Finite 7)) (JBool True) (Replies JNull (JStr ''Rock'')))
       = Rejected (JStr ''[iTunes] [Error] Invalid input.'')"
  using get_rejects_invalid_field [of "JObj [(''toString'', JNull)]" "''iTunes''"
          "Replies JNull (JStr ''Rock'')" "JBool True"]
        get_rejects_invalid_field [of "JNum (Finite 7)" "''iTunes''"
          "Replies JNull (JStr ''Rock'')" "JBool True"]
  by simp

text \<open>
  C6, as stated: \<^verbatim>\<open>get\<close> rejects only a field that is not a string, and submits a
  string outside the recognised set. It does not: the string \<^verbatim>\<open>genre\<close> is rejected
  and nothing is submitted.
\<close>

theorem get_string_outside_set_counterexample:
  "typeof (JStr ''genre'') = ''string''
   \<and> submitted (get ''iTunes'' (JStr ''genre'') JUndefined (Replies JNull (JStr ''Rock''))) = []
   \<and> state (get ''iTunes'' (JStr ''genre'') JUndefined (Replies JNull (JStr ''Rock'')))
       = Rejected (JStr ''[iTunes] [Error] Invalid input.'')"
  by (simp add: get_def get_console_def isValidKey_def)

text \<open>
  C6, amended: \<^verbatim>\<open>get\<close> submits a command exactly when the field is one of the
  strings \<^verbatim>\<open>name\<close>, \<^verbatim>\<open>artist\<close>, \<^verbatim>\<open>album\<close>. When the bridge replies, and
  unless the verbose flag is \<^verbatim>\<open>true\<close> and the field has no string form for the log
  line, it rejects with the invalid-input message exactly when the field is not one of
  them; so it does for every \<^verbatim>\<open>get(field)\<close> without the flag. A string outside the
  set is rejected like a value that is not a string, and is never submitted.
\<close>

theorem get_rejects_exactly_outside_set:
  "(submitted (get itom field isVerbose b) = [])
     = (field \<notin> {JStr ''name'', JStr ''artist'', JStr ''album''})
   \<and> (\<not> (isVerbose = JBool True \<and> toString_throws field) \<longrightarrow>
        (state (get itom field isVerbose (Replies error output))
           = Rejected (JStr (''['' @ itom @ ''] [Error] Invalid input.'')))
          = (field \<notin> {JStr ''name'', JStr ''artist'', JStr ''album''}))
   \<and> (typeof field = ''string'' \<and> field \<notin> {JStr ''name'', JStr ''artist'', JStr ''album''} \<longrightarrow>
        state (get itom field isVerbose b)
          = Rejected (JStr (''['' @ itom @ ''] [Error] Invalid input.'')))"
proof (intro conjI impI)
  show "(submitted (get itom field isVerbose b) = [])
          = (field \<notin> {JStr ''name'', JStr ''artist'', JStr ''album''})"
  proof (cases "get_console field isVerbose")
    case (Inl e)
    then have "toString_throws field" by (simp add: get_console_throws)
    then have "field \<notin> {JStr ''name'', JStr ''artist'', JStr ''album''}" by auto
    with Inl show ?thesis by (simp add: get_def)
  next
    case (Inr printed)
    then show ?thesis by (cases field) (auto simp add: get_def isValidKey_def)
  qed
next
  assume "\<not> (isVerbose = JBool True \<and> toString_throws field)"
  from get_console_prints [OF this] obtain printed
    where "get_console field isVerbose = Inr printed" ..
  then show "(state (get itom field isVerbose (Replies error output))
           = Rejected (JStr (''['' @ itom @ ''] [Error] Invalid input.'')))
          = (field \<notin> {JStr ''name'', JStr ''artist'', JStr ''album''})"
    by (cases field) (auto simp add: get_def isValidKey_def)
next
  assume a: "typeof field = ''string'' \<and> field \<notin> {JStr ''name'', JStr ''artist'', JStr ''album''}"
  then obtain s where s: "field = JStr s" by (cases field) simp_all
  then have "\<not> (isVerbose = JBool True \<and> toString_throws field)" by simp
  from get_console_prints [OF this] obtain printed
    where "get_console field isVerbose = Inr printed" ..
  with a s show "state (get itom field isVerbose b)
          = Rejected (JStr (''['' @ itom @ ''] [Error] Invalid input.''))"
    by (simp add: get_def isValidKey_def)
qed

theorem get_rejects_exactly_outside_set_witness:
  "\<not> (JBool True = JBool True \<and> toString_throws (JStr ''title''))
   \<and> typeof (JStr ''title'') = ''string''
   \<and> JStr ''title'' \<notin> {JStr ''name'', JStr ''artist'', JStr ''album''}
   \<and> state (get ''iTunes'' (JStr ''title'') (JBool True) (Replies JNull (JStr ''Rock'')))
      = Rejected (JStr ''[iTunes] [Error] Invalid input.'')
   \<and> submitted (get ''iTunes'' (JStr ''title'') (JBool True) (Replies JNull (JStr ''Rock''))) = []
   \<and> \<not> (JUndefined = JBool True \<and> toString_throws (JStr ''album''))
   \<and> state (get ''iTunes'' (JStr ''album'') JUndefined (Replies JNull (JStr ''Rock'')))
      \<noteq> Rejected (JStr ''[iTunes] [Error] Invalid input.'')
   \<and> submitted (get ''iTunes'' (JStr ''album'') JUndefined (Replies JNull (JStr ''Rock''))) \<noteq> []"
  using get_rejects_exactly_outside_set [of "''iTunes''" "JStr ''title''" "JBool True"
          "Replies JNull (JStr ''Rock'')" JNull "JStr ''Rock''"]
        get_rejects_exactly_outside_set [of "''iTunes''" "JStr ''album''" JUndefined
          "Replies JNull (JStr ''Rock'')" JNull "JStr ''Rock''"]
  by simp

text \<open>
  C9. For a field in the set, \<^verbatim>\<open>get\<close> resolves with the output the callback
  receives, whatever error value comes with it: the error is dropped, and an
  \<^verbatim>\<open>undefined\<close> output is resolved as such.
\<close>

theorem get_discards_bridge_error:
  "field \<in> {JStr ''name'', JStr ''artist'', JStr ''album''} \<Longrightarrow>
     state (get itom field isVerbose (Replies error output)) = Fulfilled output"
  by (auto simp add: get_def get_console_def log_template_def isValidKey_def)

theorem get_discards_bridge_error_witness:
  "JStr ''artist'' \<in> {JStr ''name'', JStr ''artist'', JStr ''album''}
   \<and> truthy (JObj [(''message'', JStr ''execution error'')])
   \<and> state (get ''Music'' (JStr ''artist'') JUndefined
        (Replies (JObj [(''message'', JStr ''execution error'')]) JUndefined))
       = Fulfilled JUndefined"
  using get_discards_bridge_error [of "JStr ''artist''" "''Music''" JUndefined
          "JObj [(''message'', JStr ''execution error'')]" JUndefined]
  by simp

subsection \<open>getMetadata\<close>

text \<open>
  C7. When the callback receives no error and a reply of exactly eleven values,
  \<^verbatim>\<open>getMetadata\<close> resolves with the record whose fields name, artist, album, year,
  albumArtist, bpm, composer, genre, length, progress, trackNumber are the values at
  positions 0 to 10, unchanged.
\<close>

theorem getMetadata_eleven_values:
  "\<not> truthy err \<Longrightarrow> length vs = 11 \<Longrightarrow>
     state (getMetadata itom dirname (Replies err (JArr vs))) =
       Fulfilled (JObj [(''name'', vs ! 0), (''artist'', vs ! 1), (''album'', vs ! 2),
                        (''year'', vs ! 3), (''albumArtist'', vs ! 4), (''bpm'', vs ! 5),
                        (''composer'', vs ! 6), (''genre'', vs ! 7), (''length'', vs ! 8),
                        (''progress'', vs ! 9), (''trackNumber'', vs ! 10)])"
  by (simp add: getMetadata_def getMetadata_callback_def response_def reading_def)

theorem getMetadata_eleven_values_witness:
  "\<not> truthy JNull
   \<and> length [JStr ''Song'', JStr ''Band'', JStr ''Record'', JNum (Finite 1999), JStr ''Band'',
        JNum (Finite 120), JStr ''Writer'', JStr ''Rock'', JNum (Finite 215), JNum (Finite 12),
        JNum (Finite 3)] = 11
   \<and> state (getMetadata ''Music'' ''/lib'' (Replies JNull
        (JArr [JStr ''Song'', JStr ''Band'', JStr ''Record'', JNum (Finite 1999), JStr ''Band'',
          JNum (Finite 120), JStr ''Writer'', JStr ''Rock'', JNum (Finite 215), JNum (Finite 12),
          JNum (Finite 3)]))) =
       Fulfilled (JObj [(''name'', JStr ''Song''), (''artist'', JStr ''Band''),
         (''album'', JStr ''Record''), (''year'', JNum (Finite 1999)),
         (''albumArtist'', JStr ''Band''), (''bpm'', JNum (Finite 120)),
         (''composer'', JStr ''Writer''), (''genre'', JStr ''Rock''),
         (''length'', JNum (Finite 215)), (''progress'', JNum (Finite 12)),
         (''trackNumber'', JNum (Finite 3))])"
  using getMetadata_eleven_values [of JNull
          "[JStr ''Song'', JStr ''Band'', JStr ''Record'', JNum (Finite 1999), JStr ''Band'',
            JNum (Finite 120), JStr ''Writer'', JStr ''Rock'', JNum (Finite 215), JNum (Finite 12),
            JNum (Finite 3)]" "''Music''" "''/lib''"]
  by simp

text \<open>
  C4, as stated: every reply whose shape is not that of the eleven slots rejects with
  \<^verbatim>\<open>'No song is currently playing'\<close>. It does not: a sequence of two values, with no
  error, resolves with a record whose other nine fields are \<^verbatim>\<open>undefined\<close>.
\<close>

theorem getMetadata_shape_mismatch_counterexample:
  "length [JStr ''Song'', JStr ''Band''] \<noteq> 11
   \<and> state (getMetadata ''iTunes'' ''/lib'' (Replies JNull (JArr [JStr ''Song'', JStr ''Band'']))) =
       Fulfilled (JObj [(''name'', JStr ''Song''), (''artist'', JStr ''Band''), (''album'', JUndefined),
                        (''year'', JUndefined), (''albumArtist'', JUndefined), (''bpm'', JUndefined),
                        (''composer'', JUndefined), (''genre'', JUndefined), (''length'', JUndefined),
                        (''progress'', JUndefined), (''trackNumber'', JUndefined)])"
  by (simp add: getMetadata_def getMetadata_callback_def response_def reading_def)

text \<open>
  C4, amended: the shape of the reply is not checked. With no error from the bridge, a
  \<^verbatim>\<open>null\<close> reply rejects with \<^verbatim>\<open>'No song is currently playing'\<close>; a sequence of
  any length resolves with the record of its values at positions 0 to 10,
  \<^verbatim>\<open>undefined\<close> at the positions it lacks; every other reply that is neither
  \<^verbatim>\<open>undefined\<close> nor \<^verbatim>\<open>null\<close> resolves as well. With an error from the bridge the
  promise rejects with that error, whatever the reply.
\<close>

theorem getMetadata_shape_mismatch:
  "(\<not> truthy err \<longrightarrow>
      state (getMetadata itom dirname (Replies err JNull)) =
        Rejected (JStr ''No song is currently playing''))
   \<and> (\<not> truthy err \<longrightarrow>
      state (getMetadata itom dirname (Replies err (JArr vs))) =
        Fulfilled (JObj [(''name'', slot vs 0), (''artist'', slot vs 1), (''album'', slot vs 2),
                         (''year'', slot vs 3), (''albumArtist'', slot vs 4), (''bpm'', slot vs 5),
                         (''composer'', slot vs 6), (''genre'', slot vs 7), (''length'', slot vs 8),
                         (''progress'', slot vs 9), (''trackNumber'', slot vs 10)]))
   \<and> (\<not> truthy err \<longrightarrow> meta \<noteq> JUndefined \<longrightarrow> meta \<noteq> JNull \<longrightarrow>
      (\<exists>r. state (getMetadata itom dirname (Replies err meta)) = Fulfilled r))
   \<and> (truthy err \<longrightarrow> state (getMetadata itom dirname (Replies err meta)) = Rejected err)"
proof (intro conjI impI)
  assume "\<not> truthy err"
  then show "state (getMetadata itom dirname (Replies err JNull)) =
        Rejected (JStr ''No song is currently playing'')"
    by (simp add: getMetadata_def getMetadata_callback_def response_def reading_def)
next
  assume "\<not> truthy err"
  then show "state (getMetadata itom dirname (Replies err (JArr vs))) =
        Fulfilled (JObj [(''name'', slot vs 0), (''artist'', slot vs 1), (''album'', slot vs 2),
                         (''year'', slot vs 3), (''albumArtist'', slot vs 4), (''bpm'', slot vs 5),
                         (''composer'', slot vs 6), (''genre'', slot vs 7), (''length'', slot vs 8),
                         (''progress'', slot vs 9), (''trackNumber'', slot vs 10)])"
    by (simp add: getMetadata_def getMetadata_callback_def response_def reading_def slot_def)
next
  assume e: "\<not> truthy err" and m: "meta \<noteq> JUndefined" "meta \<noteq> JNull"
  from response_defined [OF m] obtain r where "response meta = Inr r" ..
  with e m show "\<exists>r. state (getMetadata itom dirname (Replies err meta)) = Fulfilled r"
    by (simp add: getMetadata_def getMetadata_callback_def typeof_undefined typeof_not_null)
next
  assume e: "truthy err"
  show "state (getMetadata itom dirname (Replies err meta)) = Rejected err"
  proof (cases "response meta")
    case (Inl x)
    with e show ?thesis by (simp add: getMetadata_def getMetadata_callback_def Let_def)
  next
    case (Inr r)
    with e show ?thesis by (simp add: getMetadata_def getMetadata_callback_def Let_def)
  qed
qed

theorem getMetadata_shape_mismatch_witness:
  "\<not> truthy JNull \<and> JStr ''x'' \<noteq> JUndefined \<and> JStr ''x'' \<noteq> JNull \<and> truthy (JStr ''boom'')
   \<and> state (getMetadata ''Music'' ''/lib'' (Replies JNull JNull)) =
        Rejected (JStr ''No song is currently playing'')
   \<and> state (getMetadata ''Music'' ''/lib'' (Replies JNull (JArr [JStr ''Song'']))) =
       Fulfilled (JObj [(''name'', JStr ''Song''), (''artist'', JUndefined), (''album'', JUndefined),
                        (''year'', JUndefined), (''albumArtist'', JUndefined), (''bpm'', JUndefined),
                        (''composer'', JUndefined), (''genre'', JUndefined), (''length'', JUndefined),
                        (''progress'', JUndefined), (''trackNumber'', JUndefined)])
   \<and> (\<exists>r. state (getMetadata ''Music'' ''/lib'' (Replies JNull (JStr ''x''))) = Fulfilled r)
   \<and> state (getMetadata ''Music'' ''/lib'' (Replies (JStr ''boom'') (JStr ''x'')))
       = Rejected (JStr ''boom'')"
  using getMetadata_shape_mismatch [of JNull "''Music''" "''/lib''" "[JStr ''Song'']" "JStr ''x''"]
        getMetadata_shape_mismatch [of "JStr ''boom''" "''Music''" "''/lib''" "[]" "JStr ''x''"]
  by (simp add: slot_def)

end
